theory Spec2Isabelle
  imports Main "HOL-Library.AList"
begin

section \<open>Data model of the SkSL symbol table\<close>

text \<open>
  The C++ of \<^verbatim>\<open>src/sksl/ir/SkSLSymbolTable.cpp\<close> works on heap objects linked by raw
  pointers: symbol tables point to their parent, the hash map of a table stores
  \<^verbatim>\<open>Symbol*\<close>, function declarations point to their next overload. The embedding keeps
  two explicit stores, one of symbols and one of symbol tables, both addressed by natural
  numbers; a nullable pointer is an \<open>option\<close> of an address.
\<close>

type_synonym sym_ptr = nat
type_synonym tab_ptr = nat
type_synonym Position = nat
type_synonym SymbolKey = string

text \<open>
  \<^verbatim>\<open>Symbol::Kind\<close>. The four enumerators are those named by the \<^verbatim>\<open>switch\<close> of
  \<^verbatim>\<open>instantiateSymbolRef\<close>; \<open>kOtherKind\<close> stands for every enumerator that reaches
  the \<^verbatim>\<open>default\<close> label.
\<close>

datatype Kind = kFunctionDeclaration | kVariable | kField | kType | kOtherKind

text \<open>
  A symbol object. \<open>name\<close> and \<open>fPosition\<close> belong to every symbol;
  \<open>nextOverload\<close> is the link of a \<^verbatim>\<open>FunctionDeclaration\<close>, \<open>isInBuiltinTypes\<close> and
  \<open>arrayOf\<close> (component type and size of an array type) belong to a \<^verbatim>\<open>Type\<close>,
  \<open>owner\<close> and \<open>fieldIndex\<close> to a \<^verbatim>\<open>FieldSymbol\<close>.
\<close>

record Symbol =
  name :: string
  fPosition :: Position
  kind :: Kind
  nextOverload :: "sym_ptr option"
  isInBuiltinTypes :: bool
  arrayOf :: "(sym_ptr \<times> int) option"
  owner :: sym_ptr
  fieldIndex :: int

text \<open>
  A symbol table object. \<open>fSymbols\<close> is the hash map from keys to symbol pointers, kept
  as an association list so that \<^verbatim>\<open>count()\<close> and \<^verbatim>\<open>foreach\<close> can be computed; it is read
  with \<open>map_of\<close> and written with \<open>AList.update\<close>. \<open>fOwnedStrings\<close> is the
  \<^verbatim>\<open>std::forward_list\<close> of owned strings, newest first.
\<close>

record SymbolTable =
  fParent :: "tab_ptr option"
  fBuiltin :: bool
  fAtModuleBoundary :: bool
  fSymbols :: "(SymbolKey \<times> sym_ptr) list"
  fOwnedStrings :: "string list"

text \<open>
  The program state: both stores, the error sink (every reported error with its position,
  oldest first) and the next unused symbol address, from which new objects are allocated.
  \<open>debug_build\<close> tells whether the program was compiled with \<^verbatim>\<open>SK_DEBUG\<close>, in which
  case \<^verbatim>\<open>SkDEBUGFAILF\<close> aborts; otherwise the macro is empty. No operation changes it.
\<close>

record state =
  tables :: "tab_ptr \<Rightarrow> SymbolTable"
  symbols :: "sym_ptr \<Rightarrow> Symbol"
  errors :: "(Position \<times> string) list"
  next_symbol :: sym_ptr
  debug_build :: bool

text \<open>
  \<^verbatim>\<open>MakeSymbolKey\<close> pairs the name with its hash; two keys are equal exactly when the
  names are, so the key is the name.
\<close>

definition MakeSymbolKey :: "string \<Rightarrow> SymbolKey" where
  "MakeSymbolKey n = n"

section \<open>Scope chain lookup\<close>

text \<open>
  \<^verbatim>\<open>SymbolTable::lookup\<close>: the local map first, then the parent. The recursion follows
  parent pointers and does not return on a cyclic chain, which is the value \<open>None\<close>;
  \<open>Some None\<close> is the returned \<^verbatim>\<open>nullptr\<close>. The equation is also the one the
  function is evaluated with, here and for the other recursions over pointers.
\<close>

partial_function (option) lookup ::
  "(tab_ptr \<Rightarrow> SymbolTable) \<Rightarrow> tab_ptr \<Rightarrow> SymbolKey \<Rightarrow> sym_ptr option option" where
  [code]: "lookup ts t key =
     (case map_of (fSymbols (ts t)) key of
        Some found \<Rightarrow> Some (Some found)
      | None \<Rightarrow> (case fParent (ts t) of
                   Some p \<Rightarrow> lookup ts p key
                 | None \<Rightarrow> Some None))"

text \<open>
  Modelled from the spec: \<^verbatim>\<open>SymbolTable::find\<close> is declared in the header, which is not
  among the sources. "find(name): look up the key in the local mapping; if absent,
  delegate to parent.find(name); return absent if no parent", the same mechanism as
  \<open>lookup\<close> on the key of the name.
\<close>

definition find_symbol :: "state \<Rightarrow> tab_ptr \<Rightarrow> string \<Rightarrow> sym_ptr option option" where
  "find_symbol s t n = lookup (tables s) t (MakeSymbolKey n)"

text \<open>
  The parent chain of a table as a list: \<open>scope_chain ts t path\<close> holds when \<open>path\<close>
  starts at \<open>t\<close>, follows \<open>fParent\<close> and ends at a table without parent.
\<close>

fun scope_chain :: "(tab_ptr \<Rightarrow> SymbolTable) \<Rightarrow> tab_ptr \<Rightarrow> tab_ptr list \<Rightarrow> bool" where
  "scope_chain ts t [] = False"
| "scope_chain ts t [x] = (t = x \<and> fParent (ts t) = None)"
| "scope_chain ts t (x # y # ys) =
     (t = x \<and> fParent (ts t) = Some y \<and> scope_chain ts y (y # ys))"

text \<open>The first entry for a key along a list of tables.\<close>

fun lookup_path :: "(tab_ptr \<Rightarrow> SymbolTable) \<Rightarrow> tab_ptr list \<Rightarrow> SymbolKey \<Rightarrow> sym_ptr option" where
  "lookup_path ts [] key = None"
| "lookup_path ts (x # xs) key =
     (case map_of (fSymbols (ts x)) key of
        Some found \<Rightarrow> Some found
      | None \<Rightarrow> lookup_path ts xs key)"

section \<open>Insertion\<close>

text \<open>\<^verbatim>\<open>ThreadContext::ReportError(msg, pos)\<close>: one more entry in the error sink.\<close>

definition ReportError :: "string \<Rightarrow> Position \<Rightarrow> state \<Rightarrow> state" where
  "ReportError msg pos s = s\<lparr>errors := errors s @ [(pos, msg)]\<rparr>"

definition already_defined :: "string \<Rightarrow> string" where
  "already_defined n = ''symbol '' @ [CHR 0x27] @ n @ [CHR 0x27] @ '' was already defined''"

text \<open>\<^verbatim>\<open>fSymbols[key] = symbol\<close> in table \<open>t\<close>.\<close>

definition set_slot :: "tab_ptr \<Rightarrow> SymbolKey \<Rightarrow> sym_ptr \<Rightarrow> state \<Rightarrow> state" where
  "set_slot t key symbol s =
     s\<lparr>tables := (tables s)(t := (tables s t)\<lparr>fSymbols := AList.update key symbol (fSymbols (tables s t))\<rparr>)\<rparr>"

text \<open>\<^verbatim>\<open>FunctionDeclaration::setNextOverload\<close>.\<close>

definition setNextOverload :: "sym_ptr \<Rightarrow> sym_ptr \<Rightarrow> state \<Rightarrow> state" where
  "setNextOverload symbol existingDecl s =
     s\<lparr>symbols := (symbols s)(symbol := (symbols s symbol)\<lparr>nextOverload := Some existingDecl\<rparr>)\<rparr>"

text \<open>
  The first half of \<^verbatim>\<open>addWithoutOwnership\<close>: for a function declaration, the function
  declaration that \<open>lookup\<close> resolves under the same key, if any.
\<close>

definition existing_overload :: "state \<Rightarrow> tab_ptr \<Rightarrow> sym_ptr \<Rightarrow> SymbolKey \<Rightarrow> sym_ptr option option" where
  "existing_overload s t symbol key =
     (if kind (symbols s symbol) = kFunctionDeclaration then
        (case lookup (tables s) t key of
           None \<Rightarrow> None
         | Some None \<Rightarrow> Some None
         | Some (Some existingSymbol) \<Rightarrow>
             (if kind (symbols s existingSymbol) = kFunctionDeclaration
              then Some (Some existingSymbol) else Some None))
      else Some None)"

text \<open>
  The condition \<^verbatim>\<open>fAtModuleBoundary && fParent && fParent->lookup(key)\<close>, evaluated left
  to right.
\<close>

definition parent_resolves :: "state \<Rightarrow> tab_ptr \<Rightarrow> SymbolKey \<Rightarrow> bool option" where
  "parent_resolves s t key =
     (if fAtModuleBoundary (tables s t) then
        (case fParent (tables s t) of
           None \<Rightarrow> Some False
         | Some p \<Rightarrow> (case lookup (tables s) p key of
                       None \<Rightarrow> None
                     | Some r \<Rightarrow> Some (r \<noteq> None)))
      else Some False)"

text \<open>
  \<^verbatim>\<open>SymbolTable::addWithoutOwnership\<close>. After \<^verbatim>\<open>std::swap(symbol, fSymbols[key])\<close> the
  local variable \<^verbatim>\<open>symbol\<close> holds the previous content of the slot, so the name in the
  error message of that branch is read from the displaced symbol; the position was read
  before the swap, from the new one.
\<close>

definition addWithoutOwnership :: "state \<Rightarrow> tab_ptr \<Rightarrow> sym_ptr \<Rightarrow> state option" where
  "addWithoutOwnership s t symbol =
     (if name (symbols s symbol) = [] then Some s
      else
        let key = MakeSymbolKey (name (symbols s symbol)) in
        (case existing_overload s t symbol key of
           None \<Rightarrow> None
         | Some (Some existingDecl) \<Rightarrow>
             Some (set_slot t key symbol (setNextOverload symbol existingDecl s))
         | Some None \<Rightarrow>
             let pos = fPosition (symbols s symbol) in
             (case parent_resolves s t key of
                None \<Rightarrow> None
              | Some True \<Rightarrow>
                  Some (ReportError (already_defined (name (symbols s symbol))) pos s)
              | Some False \<Rightarrow>
                  (case map_of (fSymbols (tables s t)) key of
                     None \<Rightarrow> Some (set_slot t key symbol s)
                   | Some old \<Rightarrow>
                       Some (ReportError (already_defined (name (symbols s old))) pos
                               (set_slot t key symbol s))))))"

text \<open>\<^verbatim>\<open>SymbolTable::injectWithoutOwnership\<close>.\<close>

definition injectWithoutOwnership :: "state \<Rightarrow> tab_ptr \<Rightarrow> sym_ptr \<Rightarrow> state" where
  "injectWithoutOwnership s t symbol =
     set_slot t (MakeSymbolKey (name (symbols s symbol))) symbol s"

section \<open>Renaming\<close>

text \<open>
  The loop of \<^verbatim>\<open>renameSymbol\<close> over an overload set:
  \<^verbatim>\<open>for (fn = ...; fn != nullptr; fn = fn->mutableNextOverload()) fn->setName(newName)\<close>.
  It follows \<open>nextOverload\<close> pointers and does not return on a cyclic chain.
\<close>

partial_function (option) rename_overloads ::
  "(sym_ptr \<Rightarrow> Symbol) \<Rightarrow> sym_ptr option \<Rightarrow> string \<Rightarrow> (sym_ptr \<Rightarrow> Symbol) option" where
  [code]: "rename_overloads h fn newName =
     (case fn of
        None \<Rightarrow> Some h
      | Some a \<Rightarrow> rename_overloads (h(a := (h a)\<lparr>name := newName\<rparr>)) (nextOverload (h a)) newName)"

text \<open>\<^verbatim>\<open>SymbolTable::renameSymbol\<close>.\<close>

definition renameSymbol :: "state \<Rightarrow> tab_ptr \<Rightarrow> sym_ptr \<Rightarrow> string \<Rightarrow> state option" where
  "renameSymbol s t symbol newName =
     (case (if kind (symbols s symbol) = kFunctionDeclaration
            then rename_overloads (symbols s) (Some symbol) newName
            else Some ((symbols s)(symbol := (symbols s symbol)\<lparr>name := newName\<rparr>))) of
        None \<Rightarrow> None
      | Some h \<Rightarrow> addWithoutOwnership (s\<lparr>symbols := h\<rparr>) t symbol)"

text \<open>
  The overload chain of a function declaration as a list: \<open>overload_chain h p xs\<close> holds
  when \<open>xs\<close> are the addresses met from \<open>p\<close> along \<open>nextOverload\<close> up to the null
  pointer.
\<close>

fun overload_chain :: "(sym_ptr \<Rightarrow> Symbol) \<Rightarrow> sym_ptr option \<Rightarrow> sym_ptr list \<Rightarrow> bool" where
  "overload_chain h None xs = (xs = [])"
| "overload_chain h (Some a) [] = False"
| "overload_chain h (Some a) (x # xs) = (a = x \<and> overload_chain h (nextOverload (h a)) xs)"

section \<open>Array types\<close>

text \<open>
  \<^verbatim>\<open>SymbolTable::takeOwnershipOfString\<close>: the string is pushed to the front of the owned
  strings of the table. The returned pointer designates that string, whose content is the
  argument.
\<close>

definition takeOwnershipOfString :: "state \<Rightarrow> tab_ptr \<Rightarrow> string \<Rightarrow> state" where
  "takeOwnershipOfString s t str =
     s\<lparr>tables := (tables s)(t := (tables s t)\<lparr>fOwnedStrings := str # fOwnedStrings (tables s t)\<rparr>)\<rparr>"

text \<open>
  Modelled from the spec: \<^verbatim>\<open>Type::MakeArrayType\<close> is defined outside the sources. "Produced
  by a MakeArrayType(name, baseType, size) factory outside this core": a new \<^verbatim>\<open>Type\<close>
  object of the given name, at an address that was not in use.
\<close>

definition MakeArrayType :: "state \<Rightarrow> string \<Rightarrow> sym_ptr \<Rightarrow> int \<Rightarrow> sym_ptr \<times> state" where
  "MakeArrayType s arrayName ty arraySize =
     (next_symbol s,
      s\<lparr>symbols := (symbols s)(next_symbol s :=
           \<lparr>name = arrayName, fPosition = 0, kind = kType, nextOverload = None,
            isInBuiltinTypes = False, arrayOf = Some (ty, arraySize), owner = 0,
            fieldIndex = 0\<rparr>),
        next_symbol := Suc (next_symbol s)\<rparr>)"

text \<open>
  Modelled from the spec: \<^verbatim>\<open>SymbolTable::add\<close> is a template of the header, which is not
  among the sources. "Like addWithoutOwnership but for symbols the table is expected to own
  outright; returns the symbol".
\<close>

definition add_symbol :: "state \<Rightarrow> tab_ptr \<Rightarrow> sym_ptr \<Rightarrow> (sym_ptr \<times> state) option" where
  "add_symbol s t symbol =
     (case addWithoutOwnership s t symbol of
        None \<Rightarrow> None
      | Some s' \<Rightarrow> Some (symbol, s'))"

text \<open>
  The second half of \<^verbatim>\<open>addArrayDimension\<close>, in the table where the array type is kept:
  an existing symbol of the array name is reused, otherwise a new array type is made and
  added. \<^verbatim>\<open>Type::getArrayName\<close> is not among the sources and is the parameter
  \<open>getArrayName\<close>.
\<close>

definition array_type_here ::
  "(Symbol \<Rightarrow> int \<Rightarrow> string) \<Rightarrow> state \<Rightarrow> tab_ptr \<Rightarrow> sym_ptr \<Rightarrow> int \<Rightarrow> (sym_ptr \<times> state) option" where
  "array_type_here getArrayName s t ty arraySize =
     (let arrayName = getArrayName (symbols s ty) arraySize in
      case find_symbol s t arrayName of
        None \<Rightarrow> None
      | Some (Some existingType) \<Rightarrow> Some (existingType, s)
      | Some None \<Rightarrow>
          (let s1 = takeOwnershipOfString s t arrayName;
               (new, s2) = MakeArrayType s1 arrayName ty arraySize
           in add_symbol s2 t new))"

text \<open>
  \<^verbatim>\<open>SymbolTable::addArrayDimension\<close>. The condition
  \<^verbatim>\<open>type->isInBuiltinTypes() && fParent && !fAtModuleBoundary\<close> is evaluated left to
  right; the recursion follows parent pointers.
\<close>

partial_function (option) addArrayDimension ::
  "(Symbol \<Rightarrow> int \<Rightarrow> string) \<Rightarrow> state \<Rightarrow> tab_ptr \<Rightarrow> sym_ptr \<Rightarrow> int \<Rightarrow> (sym_ptr \<times> state) option" where
  [code]: "addArrayDimension getArrayName s t ty arraySize =
     (if arraySize = 0 then Some (ty, s)
      else
        (case (if isInBuiltinTypes (symbols s ty) then fParent (tables s t) else None) of
           Some p \<Rightarrow>
             (if \<not> fAtModuleBoundary (tables s t)
              then addArrayDimension getArrayName s p ty arraySize
              else array_type_here getArrayName s t ty arraySize)
         | None \<Rightarrow> array_type_here getArrayName s t ty arraySize))"

section \<open>Queries\<close>

text \<open>\<^verbatim>\<open>SymbolTable::isType\<close>.\<close>

definition isType :: "state \<Rightarrow> tab_ptr \<Rightarrow> string \<Rightarrow> bool option" where
  "isType s t n =
     (case find_symbol s t n of
        None \<Rightarrow> None
      | Some None \<Rightarrow> Some False
      | Some (Some symbol) \<Rightarrow> Some (kind (symbols s symbol) = kType))"

text \<open>\<^verbatim>\<open>SymbolTable::isBuiltinType\<close>; \<^verbatim>\<open>isBuiltin()\<close> reads \<open>fBuiltin\<close>.\<close>

partial_function (option) isBuiltinType :: "state \<Rightarrow> tab_ptr \<Rightarrow> string \<Rightarrow> bool option" where
  [code]: "isBuiltinType s t n =
     (if \<not> fBuiltin (tables s t) then
        (case fParent (tables s t) of
           None \<Rightarrow> Some False
         | Some p \<Rightarrow> isBuiltinType s p n)
      else isType s t n)"

text \<open>\<^verbatim>\<open>SymbolTable::findBuiltinSymbol\<close>.\<close>

partial_function (option) findBuiltinSymbol ::
  "state \<Rightarrow> tab_ptr \<Rightarrow> string \<Rightarrow> sym_ptr option option" where
  [code]: "findBuiltinSymbol s t n =
     (if \<not> fBuiltin (tables s t) then
        (case fParent (tables s t) of
           None \<Rightarrow> Some None
         | Some p \<Rightarrow> findBuiltinSymbol s p n)
      else find_symbol s t n)"

text \<open>
  \<^verbatim>\<open>SymbolTable::wouldShadowSymbolsFrom\<close>: the table with fewer entries is iterated, the
  other one probed. \<^verbatim>\<open>count()\<close> is the length of the association list, which has one
  entry per key.
\<close>

definition wouldShadowSymbolsFrom :: "state \<Rightarrow> tab_ptr \<Rightarrow> tab_ptr \<Rightarrow> bool" where
  "wouldShadowSymbolsFrom s this other =
     (let (self, other') =
            (if length (fSymbols (tables s this)) > length (fSymbols (tables s other))
             then (other, this) else (this, other))
      in fold (\<lambda>(key, symbol) foundShadow.
                 if foundShadow then foundShadow
                 else if map_of (fSymbols (tables s other')) key \<noteq> None then True
                 else foundShadow)
              (fSymbols (tables s self)) False)"

section \<open>Reference nodes\<close>

datatype RefKind = kRead | kWrite | kReadWrite | kPointer

datatype OwnerKind = kDefault | kAnonymousInterfaceBlock

text \<open>
  Modelled from the spec: the node classes and their factories
  (\<^verbatim>\<open>FunctionReference\<close>, \<^verbatim>\<open>VariableReference::Make\<close>, \<^verbatim>\<open>FieldAccess::Make\<close>,
  \<^verbatim>\<open>TypeReference::Convert\<close>) are defined outside the sources. Each "produces a node"
  of its kind from the arguments it is given.
\<close>

datatype Expression =
    FunctionReference Position sym_ptr
  | VariableReference Position sym_ptr RefKind
  | FieldAccess Position Expression int OwnerKind
  | TypeReference Position sym_ptr

text \<open>
  \<^verbatim>\<open>SkDEBUGFAILF\<close>: the abort at the \<^verbatim>\<open>default\<close> label of a debug build. In other
  builds the macro does nothing and the statement after it, \<^verbatim>\<open>return nullptr\<close>, runs.
\<close>

datatype fatal = DebugFail

definition unknown_identifier :: "string \<Rightarrow> string" where
  "unknown_identifier n = ''unknown identifier '' @ [CHR 0x27] @ n @ [CHR 0x27]"

text \<open>
  \<^verbatim>\<open>SymbolTable::instantiateSymbolRef\<close>. The result is the returned pointer
  (\<open>Inr None\<close> is \<^verbatim>\<open>nullptr\<close>) or the abort of a debug build, with the state after the
  call.
  \<^verbatim>\<open>context.fErrors->error(pos, msg)\<close> writes to the error sink.
\<close>

definition instantiateSymbolRef ::
  "state \<Rightarrow> tab_ptr \<Rightarrow> string \<Rightarrow> Position \<Rightarrow> ((fatal + Expression option) \<times> state) option" where
  "instantiateSymbolRef s t n pos =
     (case find_symbol s t n of
        None \<Rightarrow> None
      | Some None \<Rightarrow> Some (Inr None, ReportError (unknown_identifier n) pos s)
      | Some (Some result) \<Rightarrow>
          (case kind (symbols s result) of
             kFunctionDeclaration \<Rightarrow> Some (Inr (Some (FunctionReference pos result)), s)
           | kVariable \<Rightarrow> Some (Inr (Some (VariableReference pos result kRead)), s)
           | kField \<Rightarrow>
               (let base = VariableReference pos (owner (symbols s result)) kRead
                in Some (Inr (Some (FieldAccess pos base (fieldIndex (symbols s result))
                                      kAnonymousInterfaceBlock)), s))
           | kType \<Rightarrow> Some (Inr (Some (TypeReference pos result)), s)
           | kOtherKind \<Rightarrow>
               (if debug_build s then Some (Inl DebugFail, s) else Some (Inr None, s))))"

section \<open>The constant member functions as calls\<close>

text \<open>
  A call of a member function takes the state before the call to a result and the state
  after it. The member functions that write are defined in this form above. The same
  reading of the bodies of the constant member functions follows: every callee is given
  the state its caller has reached and hands back the state it leaves.
\<close>

text \<open>\<^verbatim>\<open>SymbolTable::lookup\<close> as a call.\<close>

partial_function (option) lookup_call ::
  "state \<Rightarrow> tab_ptr \<Rightarrow> SymbolKey \<Rightarrow> (sym_ptr option \<times> state) option" where
  [code]: "lookup_call s t key =
     (case map_of (fSymbols (tables s t)) key of
        Some found \<Rightarrow> Some (Some found, s)
      | None \<Rightarrow> (case fParent (tables s t) of
                   Some p \<Rightarrow> lookup_call s p key
                 | None \<Rightarrow> Some (None, s)))"

text \<open>
  Modelled from the spec: \<^verbatim>\<open>SymbolTable::find\<close> of the header as a call, the lookup of
  the key of the name.
\<close>

definition find_call :: "state \<Rightarrow> tab_ptr \<Rightarrow> string \<Rightarrow> (sym_ptr option \<times> state) option" where
  "find_call s t n = lookup_call s t (MakeSymbolKey n)"

text \<open>\<^verbatim>\<open>SymbolTable::isType\<close> as a call.\<close>

definition isType_call :: "state \<Rightarrow> tab_ptr \<Rightarrow> string \<Rightarrow> (bool \<times> state) option" where
  "isType_call s t n =
     (case find_call s t n of
        None \<Rightarrow> None
      | Some (None, s1) \<Rightarrow> Some (False, s1)
      | Some (Some symbol, s1) \<Rightarrow> Some (kind (symbols s1 symbol) = kType, s1))"

text \<open>\<^verbatim>\<open>SymbolTable::isBuiltinType\<close> as a call.\<close>

partial_function (option) isBuiltinType_call ::
  "state \<Rightarrow> tab_ptr \<Rightarrow> string \<Rightarrow> (bool \<times> state) option" where
  [code]: "isBuiltinType_call s t n =
     (if \<not> fBuiltin (tables s t) then
        (case fParent (tables s t) of
           None \<Rightarrow> Some (False, s)
         | Some p \<Rightarrow> isBuiltinType_call s p n)
      else isType_call s t n)"

text \<open>\<^verbatim>\<open>SymbolTable::findBuiltinSymbol\<close> as a call.\<close>

partial_function (option) findBuiltinSymbol_call ::
  "state \<Rightarrow> tab_ptr \<Rightarrow> string \<Rightarrow> (sym_ptr option \<times> state) option" where
  [code]: "findBuiltinSymbol_call s t n =
     (if \<not> fBuiltin (tables s t) then
        (case fParent (tables s t) of
           None \<Rightarrow> Some (None, s)
         | Some p \<Rightarrow> findBuiltinSymbol_call s p n)
      else find_call s t n)"

text \<open>
  The body of the \<^verbatim>\<open>foreach\<close> of \<^verbatim>\<open>wouldShadowSymbolsFrom\<close>, run on one entry of the
  iterated table: it reads the flag \<^verbatim>\<open>foundShadow\<close> and probes the table \<open>other\<close>.
\<close>

definition shadow_step ::
  "tab_ptr \<Rightarrow> SymbolKey \<times> sym_ptr \<Rightarrow> bool \<times> state \<Rightarrow> bool \<times> state" where
  "shadow_step other entry acc =
     (let (key, symbol) = entry; (foundShadow, s) = acc in
      if foundShadow then (foundShadow, s)
      else if map_of (fSymbols (tables s other)) key \<noteq> None then (True, s)
      else (foundShadow, s))"

text \<open>\<^verbatim>\<open>SymbolTable::wouldShadowSymbolsFrom\<close> as a call.\<close>

definition wouldShadowSymbolsFrom_call :: "state \<Rightarrow> tab_ptr \<Rightarrow> tab_ptr \<Rightarrow> bool \<times> state" where
  "wouldShadowSymbolsFrom_call s this other =
     (let (self, other') =
            (if length (fSymbols (tables s this)) > length (fSymbols (tables s other))
             then (other, this) else (this, other))
      in fold (shadow_step other') (fSymbols (tables s self)) (False, s))"

section \<open>Derived notions used by the properties\<close>

text \<open>
  \<open>delegates ts a path g\<close>: from table \<open>a\<close> the parent pointers lead to table \<open>g\<close>
  through the tables of \<open>path\<close>, each of which has a parent and is not at a module
  boundary. These are the tables from which \<open>addArrayDimension\<close> of a builtin type
  recurses into the parent.
\<close>

fun delegates :: "(tab_ptr \<Rightarrow> SymbolTable) \<Rightarrow> tab_ptr \<Rightarrow> tab_ptr list \<Rightarrow> tab_ptr \<Rightarrow> bool" where
  "delegates ts a [] g = (a = g)"
| "delegates ts a (x # xs) g =
     (a = x \<and> \<not> fAtModuleBoundary (ts a) \<and>
      (case fParent (ts a) of None \<Rightarrow> False | Some p \<Rightarrow> delegates ts p xs g))"

text \<open>Two states whose tables have the same parent links and module-boundary flags.\<close>

definition same_shape :: "state \<Rightarrow> state \<Rightarrow> bool" where
  "same_shape s s1 \<longleftrightarrow>
     (\<forall>x. fParent (tables s1 x) = fParent (tables s x) \<and>
          fAtModuleBoundary (tables s1 x) = fAtModuleBoundary (tables s x))"

text \<open>The symbol store in which the symbols at the addresses \<open>xs\<close> carry the name \<open>n\<close>.\<close>

definition renamed :: "(sym_ptr \<Rightarrow> Symbol) \<Rightarrow> sym_ptr list \<Rightarrow> string \<Rightarrow> sym_ptr \<Rightarrow> Symbol" where
  "renamed h xs n = (\<lambda>a. if a \<in> set xs then (h a)\<lparr>name := n\<rparr> else h a)"

text \<open>Two insertions into the same table, one after the other.\<close>

definition add_twice :: "state \<Rightarrow> tab_ptr \<Rightarrow> sym_ptr \<Rightarrow> sym_ptr \<Rightarrow> state option" where
  "add_twice s t first second =
     (case addWithoutOwnership s t first of
        None \<Rightarrow> None
      | Some s1 \<Rightarrow> addWithoutOwnership s1 t second)"

subsection \<open>A concrete program state\<close>

text \<open>
  A builtin root table \<open>0\<close> that defines the variable \<open>x\<close>, the function \<open>f\<close> and the
  builtin type \<open>float\<close>; a table \<open>1\<close> at the module boundary below it; two ordinary
  scopes \<open>2\<close> and \<open>3\<close> below the root, the first of which defines the variable \<open>v\<close>
  and the function \<open>h\<close> with two overloads. The symbols from address \<open>20\<close> on are
  declared nowhere yet; the symbol at \<open>26\<close> is anonymous.
\<close>

definition symbol_of :: "string \<Rightarrow> Position \<Rightarrow> Kind \<Rightarrow> Symbol" where
  "symbol_of n pos k =
     \<lparr>name = n, fPosition = pos, kind = k, nextOverload = None, isInBuiltinTypes = False,
      arrayOf = None, owner = 0, fieldIndex = 0\<rparr>"

definition table_of ::
  "tab_ptr option \<Rightarrow> bool \<Rightarrow> bool \<Rightarrow> (SymbolKey \<times> sym_ptr) list \<Rightarrow> SymbolTable" where
  "table_of parent builtin boundary entries =
     \<lparr>fParent = parent, fBuiltin = builtin, fAtModuleBoundary = boundary, fSymbols = entries,
      fOwnedStrings = []\<rparr>"

definition example_symbols :: "sym_ptr \<Rightarrow> Symbol" where
  "example_symbols =
     (\<lambda>a. symbol_of [] 0 kVariable)
       (10 := symbol_of ''x'' 1 kVariable,
        11 := symbol_of ''f'' 2 kFunctionDeclaration,
        12 := (symbol_of ''float'' 3 kType)\<lparr>isInBuiltinTypes := True\<rparr>,
        13 := symbol_of ''v'' 4 kVariable,
        14 := (symbol_of ''h'' 5 kFunctionDeclaration)\<lparr>nextOverload := Some 15\<rparr>,
        15 := symbol_of ''h'' 6 kFunctionDeclaration,
        20 := symbol_of ''x'' 20 kVariable,
        21 := symbol_of ''f'' 21 kFunctionDeclaration,
        22 := symbol_of ''f'' 22 kFunctionDeclaration,
        23 := symbol_of ''v'' 23 kVariable,
        24 := symbol_of ''x'' 24 kFunctionDeclaration,
        25 := symbol_of ''x'' 25 kFunctionDeclaration,
        26 := symbol_of [] 26 kVariable,
        27 := symbol_of ''f'' 27 kVariable)"

definition example_tables :: "tab_ptr \<Rightarrow> SymbolTable" where
  "example_tables =
     (\<lambda>a. table_of None False False [])
       (0 := table_of None True False [(''x'', 10), (''f'', 11), (''float'', 12)],
        1 := table_of (Some 0) False True [],
        2 := table_of (Some 0) False False [(''v'', 13), (''h'', 14)],
        3 := table_of (Some 0) False False [])"

definition example_state :: state where
  "example_state =
     \<lparr>tables = example_tables, symbols = example_symbols, errors = [], next_symbol = 30,
      debug_build = False\<rparr>"

text \<open>An array-name generator for the concrete state: the name of the type and brackets.\<close>

definition bracket_name :: "Symbol \<Rightarrow> int \<Rightarrow> string" where
  "bracket_name ty arraySize = name ty @ ''[]''"

section \<open>Basic facts\<close>

subsection \<open>Lookup along a finite parent chain\<close>

lemma lookup_chain:
  "scope_chain ts t path \<Longrightarrow> lookup ts t key = Some (lookup_path ts path key)"
proof (induction ts t path rule: scope_chain.induct)
  case (1 ts t)
  then show ?case by simp
next
  case (2 ts t x)
  then show ?case by (subst lookup.simps) (auto split: option.splits)
next
  case (3 ts t x y ys)
  then show ?case by (subst lookup.simps) (auto split: option.splits)
qed

lemma lookup_local:
  "map_of (fSymbols (ts t)) key = Some y \<Longrightarrow> lookup ts t key = Some (Some y)"
  by (subst lookup.simps) simp

lemma lookup_parent:
  "map_of (fSymbols (ts t)) key = None \<Longrightarrow> fParent (ts t) = Some p \<Longrightarrow>
   lookup ts t key = lookup ts p key"
  by (subst lookup.simps) simp

lemma lookup_None_local:
  "lookup ts t key = Some None \<Longrightarrow> map_of (fSymbols (ts t)) key = None"
  by (subst (asm) lookup.simps) (simp split: option.splits)

lemma lookup_None_parent:
  "lookup ts t key = Some None \<Longrightarrow> fParent (ts t) = Some p \<Longrightarrow> lookup ts p key = Some None"
  by (subst (asm) lookup.simps) (simp split: option.splits)

lemma scope_chain_cong:
  "scope_chain ts t path \<Longrightarrow> \<forall>x. fParent (ts' x) = fParent (ts x) \<Longrightarrow> scope_chain ts' t path"
  by (induction ts t path rule: scope_chain.induct) auto

lemma lookup_path_cong:
  "\<forall>x. fSymbols (ts' x) = fSymbols (ts x) \<Longrightarrow> lookup_path ts' path key = lookup_path ts path key"
  by (induction path) (auto split: option.splits)

lemma lookup_cong:
  assumes "scope_chain ts t path"
    and "\<forall>x. fParent (ts' x) = fParent (ts x)"
    and "\<forall>x. fSymbols (ts' x) = fSymbols (ts x)"
  shows "lookup ts' t key = lookup ts t key"
  using lookup_chain [OF assms(1)] lookup_chain [OF scope_chain_cong [OF assms(1,2)]]
    lookup_path_cong [OF assms(3)] by simp

lemma scope_chain_parent:
  "scope_chain ts t path \<Longrightarrow> fParent (ts t) = Some p \<Longrightarrow> \<exists>rest. scope_chain ts p rest"
  by (induction ts t path rule: scope_chain.induct) auto

lemma lookup_path_unresolved:
  "\<forall>x \<in> set path. map_of (fSymbols (ts x)) key = None \<Longrightarrow> lookup_path ts path key = None"
  by (induction path) auto

subsection \<open>What the state updates leave alone\<close>

lemma ReportError_frame [simp]:
  "tables (ReportError msg pos s) = tables s"
  "symbols (ReportError msg pos s) = symbols s"
  "next_symbol (ReportError msg pos s) = next_symbol s"
  "errors (ReportError msg pos s) = errors s @ [(pos, msg)]"
  by (simp_all add: ReportError_def)

lemma set_slot_frame [simp]:
  "symbols (set_slot t key symbol s) = symbols s"
  "errors (set_slot t key symbol s) = errors s"
  "next_symbol (set_slot t key symbol s) = next_symbol s"
  "tables (set_slot t key symbol s) =
     (tables s)(t := (tables s t)\<lparr>fSymbols := AList.update key symbol (fSymbols (tables s t))\<rparr>)"
  by (simp_all add: set_slot_def)

lemma setNextOverload_frame [simp]:
  "tables (setNextOverload symbol d s) = tables s"
  "errors (setNextOverload symbol d s) = errors s"
  "next_symbol (setNextOverload symbol d s) = next_symbol s"
  "symbols (setNextOverload symbol d s) =
     (symbols s)(symbol := (symbols s symbol)\<lparr>nextOverload := Some d\<rparr>)"
  by (simp_all add: setNextOverload_def)

lemma map_of_update_same: "map_of (AList.update k v al) k = Some v"
  by (simp add: update_conv')

lemma find_after_set_slot:
  "find_symbol (set_slot t key symbol s) t key = Some (Some symbol)"
  by (simp add: find_symbol_def MakeSymbolKey_def lookup_local map_of_update_same)

lemma parent_resolves_symbols:
  "parent_resolves (s\<lparr>symbols := h\<rparr>) t key = parent_resolves s t key"
  by (simp add: parent_resolves_def cong: option.case_cong)

subsection \<open>The branches of \<open>addWithoutOwnership\<close>\<close>

lemma add_overload:
  assumes "kind (symbols s f) = kFunctionDeclaration"
    and "name (symbols s f) \<noteq> []"
    and "lookup (tables s) t (name (symbols s f)) = Some (Some g)"
    and "kind (symbols s g) = kFunctionDeclaration"
  shows "addWithoutOwnership s t f =
           Some (set_slot t (name (symbols s f)) f (setNextOverload f g s))"
  using assms
  by (simp add: addWithoutOwnership_def existing_overload_def MakeSymbolKey_def)

lemma add_plain:
  assumes "name (symbols s f) \<noteq> []"
    and "existing_overload s t f (name (symbols s f)) = Some None"
    and "parent_resolves s t (name (symbols s f)) = Some False"
    and "map_of (fSymbols (tables s t)) (name (symbols s f)) = None"
  shows "addWithoutOwnership s t f = Some (set_slot t (name (symbols s f)) f s)"
  using assms by (simp add: addWithoutOwnership_def MakeSymbolKey_def)

section \<open>Properties of the symbol table\<close>

subsection \<open>Array dimension zero\<close>

text \<open>
  C9. For every type and every table, \<open>addArrayDimension\<close> with size \<open>0\<close> returns the
  type it was given and the state it was called in: nothing is allocated, and no mapping
  and no list of owned strings changes.
\<close>

theorem addArrayDimension_zero:
  "addArrayDimension getArrayName s t ty 0 = Some (ty, s)"
  by (subst addArrayDimension.simps) simp

subsection \<open>Redeclaration at the module boundary\<close>

text \<open>
  C1, as the code has it. Let table \<open>m\<close> be at the module boundary, with a parent whose
  chain resolves the name of a new symbol that is not a function declaration (and has a
  name). Then \<open>addWithoutOwnership\<close> returns, inserts nothing (no table and no symbol
  changes) and reports exactly one error, made of the name and the position of the new
  symbol. \<open>find\<close> of the name gives afterwards what it gave before: the symbol of the
  ancestor when \<open>m\<close> holds no entry of its own for the name, and the entry of \<open>m\<close> when
  it holds one (a function declaration that overloads the function of the ancestor).
\<close>

theorem addWithoutOwnership_module_boundary_duplicate:
  assumes boundary: "fAtModuleBoundary (tables s m)"
    and parent: "fParent (tables s m) = Some p"
    and resolved: "lookup (tables s) p (name (symbols s symbol)) = Some (Some ancestor)"
    and nonfun: "kind (symbols s symbol) \<noteq> kFunctionDeclaration"
    and named: "name (symbols s symbol) \<noteq> []"
  shows "\<exists>s'. addWithoutOwnership s m symbol = Some s'
           \<and> tables s' = tables s \<and> symbols s' = symbols s
           \<and> errors s' = errors s @ [(fPosition (symbols s symbol),
                                       already_defined (name (symbols s symbol)))]
           \<and> find_symbol s' m (name (symbols s symbol)) = find_symbol s m (name (symbols s symbol))
           \<and> (map_of (fSymbols (tables s m)) (name (symbols s symbol)) = None \<longrightarrow>
                find_symbol s' m (name (symbols s symbol)) = Some (Some ancestor))
           \<and> (\<forall>e. map_of (fSymbols (tables s m)) (name (symbols s symbol)) = Some e \<longrightarrow>
                find_symbol s' m (name (symbols s symbol)) = Some (Some e))"
proof -
  let ?n = "name (symbols s symbol)"
  let ?s' = "ReportError (already_defined ?n) (fPosition (symbols s symbol)) s"
  have ov: "existing_overload s m symbol ?n = Some None"
    using nonfun by (simp add: existing_overload_def)
  have pr: "parent_resolves s m ?n = Some True"
    using boundary parent resolved by (simp add: parent_resolves_def)
  have run: "addWithoutOwnership s m symbol = Some ?s'"
    using named ov pr by (simp add: addWithoutOwnership_def MakeSymbolKey_def)
  have same: "find_symbol ?s' m ?n = find_symbol s m ?n"
    by (simp add: find_symbol_def)
  have anc: "find_symbol s m ?n = Some (Some ancestor)"
    if "map_of (fSymbols (tables s m)) ?n = None"
  proof -
    have "lookup (tables s) m ?n = lookup (tables s) p ?n"
      using that parent by (rule lookup_parent)
    then show ?thesis using resolved by (simp add: find_symbol_def MakeSymbolKey_def)
  qed
  have own: "find_symbol s m ?n = Some (Some e)"
    if "map_of (fSymbols (tables s m)) ?n = Some e" for e
    using that by (simp add: find_symbol_def MakeSymbolKey_def lookup_local)
  show ?thesis
  proof (intro exI conjI impI allI)
    show "addWithoutOwnership s m symbol = Some ?s'" by (rule run)
  qed (simp_all add: same anc own)
qed

theorem addWithoutOwnership_module_boundary_duplicate_witness:
  "\<exists>s'. addWithoutOwnership example_state 1 20 = Some s'
     \<and> tables s' = tables example_state
     \<and> errors s' = [(20, already_defined ''x'')]
     \<and> find_symbol s' 1 ''x'' = Some (Some 10)"
proof -
  have h1: "fAtModuleBoundary (tables example_state 1)" by code_simp
  have h2: "fParent (tables example_state 1) = Some 0" by code_simp
  have h3: "lookup (tables example_state) 0 (name (symbols example_state 20)) = Some (Some 10)"
    by code_simp
  have h4: "kind (symbols example_state 20) \<noteq> kFunctionDeclaration" by code_simp
  have h5: "name (symbols example_state 20) \<noteq> []" by code_simp
  have n: "name (symbols example_state 20) = ''x''" by code_simp
  have pos: "fPosition (symbols example_state 20) = 20" by code_simp
  have er: "errors example_state = []" by code_simp
  have loc: "map_of (fSymbols (tables example_state 1)) ''x'' = None" by code_simp
  show ?thesis
    using addWithoutOwnership_module_boundary_duplicate [OF h1 h2 h3 h4 h5] loc
    unfolding n pos er by auto
qed

text \<open>
  \<open>find\<close> does not always resolve to the symbol of the ancestor after the rejection. In
  the concrete state, the function \<open>f\<close> at address \<open>21\<close> is first added to the table
  \<open>1\<close> at the module boundary; it overloads the function \<open>f\<close> at address \<open>11\<close> of the
  root table without an error. In the state reached, table \<open>1\<close> is at the module boundary
  and its parent resolves \<open>f\<close> to \<open>11\<close>. The variable \<open>f\<close> at address \<open>27\<close> is then
  rejected with one error, the mapping of table \<open>1\<close> stays as it was, and \<open>find\<close> of
  \<open>f\<close> resolves to the entry \<open>21\<close> of table \<open>1\<close>, not to \<open>11\<close>.
\<close>

theorem rejected_duplicate_resolves_locally_counterexample:
  "addWithoutOwnership example_state 1 21 \<noteq> None
   \<and> errors (the (addWithoutOwnership example_state 1 21)) = []
   \<and> fAtModuleBoundary (tables (the (addWithoutOwnership example_state 1 21)) 1)
   \<and> fParent (tables (the (addWithoutOwnership example_state 1 21)) 1) = Some 0
   \<and> lookup (tables (the (addWithoutOwnership example_state 1 21))) 0 ''f'' = Some (Some 11)
   \<and> kind (symbols (the (addWithoutOwnership example_state 1 21)) 27) = kVariable
   \<and> name (symbols (the (addWithoutOwnership example_state 1 21)) 27) = ''f''
   \<and> addWithoutOwnership (the (addWithoutOwnership example_state 1 21)) 1 27 \<noteq> None
   \<and> fSymbols (tables (the (addWithoutOwnership (the (addWithoutOwnership example_state 1 21))
        1 27)) 1) = [(''f'', 21)]
   \<and> errors (the (addWithoutOwnership (the (addWithoutOwnership example_state 1 21)) 1 27)) =
       [(27, already_defined ''f'')]
   \<and> find_symbol (the (addWithoutOwnership (the (addWithoutOwnership example_state 1 21)) 1 27))
        1 ''f'' = Some (Some 21)"
  by code_simp

subsection \<open>Unknown identifiers\<close>

text \<open>
  C8. Let the parent chain of table \<open>t\<close> be finite and let no table on it hold an entry
  for the name \<open>n\<close>. Then \<open>instantiateSymbolRef\<close> at position \<open>pos\<close> returns the null
  pointer, not the assertion failure, and the only change of the state is one more error,
  the unknown identifier \<open>n\<close> at \<open>pos\<close>.
\<close>

theorem instantiateSymbolRef_unknown_identifier:
  assumes chain: "scope_chain (tables s) t path"
    and unresolved: "\<forall>x \<in> set path. map_of (fSymbols (tables s x)) n = None"
  shows "instantiateSymbolRef s t n pos =
           Some (Inr None, s\<lparr>errors := errors s @ [(pos, unknown_identifier n)]\<rparr>)"
proof -
  have "lookup_path (tables s) path n = None"
    using unresolved by (rule lookup_path_unresolved)
  then have "find_symbol s t n = Some None"
    using lookup_chain [OF chain] by (simp add: find_symbol_def MakeSymbolKey_def)
  then show ?thesis
    by (simp add: instantiateSymbolRef_def ReportError_def)
qed

theorem instantiateSymbolRef_unknown_identifier_witness:
  "instantiateSymbolRef example_state 2 ''nope'' 77 =
     Some (Inr None, example_state\<lparr>errors := errors example_state @ [(77, unknown_identifier ''nope'')]\<rparr>)"
proof -
  have h1: "scope_chain (tables example_state) 2 [2, 0]" by code_simp
  have h2: "\<forall>x \<in> set [2, 0]. map_of (fSymbols (tables example_state x)) ''nope'' = None"
    by code_simp
  show ?thesis
    by (rule instantiateSymbolRef_unknown_identifier [OF h1 h2])
qed

subsection \<open>Redeclaration inside one table\<close>

text \<open>
  C3. Let the new symbol \<open>s2\<close> not be a function declaration and have a name under which
  the local mapping of table \<open>t\<close> already holds a symbol \<open>s1\<close>; let \<open>t\<close> not be at a
  module boundary, or have no parent, or have a parent whose chain does not resolve the
  name. Then \<open>addWithoutOwnership\<close> puts \<open>s2\<close> into the slot, so that \<open>find\<close> of the name
  resolves to \<open>s2\<close> from then on, and reports exactly one error, at the position of
  \<open>s2\<close>. No symbol object changes.
\<close>

theorem addWithoutOwnership_duplicate_replaces:
  assumes nonfun: "kind (symbols s s2) \<noteq> kFunctionDeclaration"
    and named: "name (symbols s s2) \<noteq> []"
    and held: "map_of (fSymbols (tables s t)) (name (symbols s s2)) = Some s1"
    and noclash: "\<not> fAtModuleBoundary (tables s t) \<or> fParent (tables s t) = None \<or>
                  (\<exists>p. fParent (tables s t) = Some p \<and>
                       lookup (tables s) p (name (symbols s s2)) = Some None)"
  shows "\<exists>s'. addWithoutOwnership s t s2 = Some s'
           \<and> map_of (fSymbols (tables s' t)) (name (symbols s s2)) = Some s2
           \<and> find_symbol s' t (name (symbols s s2)) = Some (Some s2)
           \<and> errors s' = errors s @ [(fPosition (symbols s s2),
                                       already_defined (name (symbols s s1)))]
           \<and> symbols s' = symbols s"
proof -
  let ?n = "name (symbols s s2)"
  let ?s' = "ReportError (already_defined (name (symbols s s1))) (fPosition (symbols s s2))
               (set_slot t ?n s2 s)"
  have ov: "existing_overload s t s2 ?n = Some None"
    using nonfun by (simp add: existing_overload_def)
  have pr: "parent_resolves s t ?n = Some False"
    using noclash by (auto simp add: parent_resolves_def)
  have run: "addWithoutOwnership s t s2 = Some ?s'"
    using named ov pr held by (simp add: addWithoutOwnership_def MakeSymbolKey_def)
  have slot: "map_of (fSymbols (tables ?s' t)) ?n = Some s2"
    by (simp add: map_of_update_same)
  have found: "find_symbol ?s' t ?n = Some (Some s2)"
    using slot by (simp add: find_symbol_def MakeSymbolKey_def lookup_local)
  show ?thesis
  proof (intro exI conjI)
    show "addWithoutOwnership s t s2 = Some ?s'" by (rule run)
    show "map_of (fSymbols (tables ?s' t)) ?n = Some s2" by (rule slot)
    show "find_symbol ?s' t ?n = Some (Some s2)" by (rule found)
  qed simp_all
qed

theorem addWithoutOwnership_duplicate_replaces_witness:
  "\<exists>s'. addWithoutOwnership example_state 2 23 = Some s'
     \<and> map_of (fSymbols (tables s' 2)) ''v'' = Some 23
     \<and> find_symbol s' 2 ''v'' = Some (Some 23)
     \<and> errors s' = [(23, already_defined ''v'')]
     \<and> symbols s' = symbols example_state"
proof -
  have h1: "kind (symbols example_state 23) \<noteq> kFunctionDeclaration" by code_simp
  have h2: "name (symbols example_state 23) \<noteq> []" by code_simp
  have h3: "map_of (fSymbols (tables example_state 2)) (name (symbols example_state 23)) = Some 13"
    by code_simp
  have h4: "\<not> fAtModuleBoundary (tables example_state 2)" by code_simp
  have n: "name (symbols example_state 23) = ''v''" by code_simp
  have n1: "name (symbols example_state 13) = ''v''" by code_simp
  have pos: "fPosition (symbols example_state 23) = 23" by code_simp
  have er: "errors example_state = []" by code_simp
  show ?thesis
    using addWithoutOwnership_duplicate_replaces [OF h1 h2 h3 disjI1 [OF h4]]
    unfolding n n1 pos er by simp
qed

subsection \<open>Anonymous symbols\<close>

text \<open>
  C7, as the code has it. \<open>addWithoutOwnership\<close> of a symbol whose name is empty returns
  the state it was called in: no entry is made and no error is reported.
  \<open>injectWithoutOwnership\<close> has no such test: it stores the symbol under the key of the
  empty name, reports nothing, and \<open>find\<close> of the empty name in that table returns the
  symbol afterwards.
\<close>

theorem anonymous_symbol_registration:
  assumes anon: "name (symbols s symbol) = []"
  shows "addWithoutOwnership s t symbol = Some s
         \<and> map_of (fSymbols (tables (injectWithoutOwnership s t symbol) t)) [] = Some symbol
         \<and> find_symbol (injectWithoutOwnership s t symbol) t [] = Some (Some symbol)
         \<and> errors (injectWithoutOwnership s t symbol) = errors s"
  using anon
  by (simp add: addWithoutOwnership_def injectWithoutOwnership_def MakeSymbolKey_def
      map_of_update_same find_after_set_slot)

theorem anonymous_symbol_registration_witness:
  "addWithoutOwnership example_state 2 26 = Some example_state
   \<and> map_of (fSymbols (tables (injectWithoutOwnership example_state 2 26) 2)) [] = Some 26
   \<and> find_symbol (injectWithoutOwnership example_state 2 26) 2 [] = Some (Some 26)
   \<and> errors (injectWithoutOwnership example_state 2 26) = errors example_state"
proof -
  have h: "name (symbols example_state 26) = []" by code_simp
  show ?thesis by (rule anonymous_symbol_registration [OF h])
qed

text \<open>
  Read for every registration path, the invariant of the specification fails for
  \<open>injectWithoutOwnership\<close>: in the concrete state
  the anonymous symbol \<open>26\<close> is registered in table \<open>2\<close> and returned by \<open>find\<close>.
\<close>

theorem injectWithoutOwnership_registers_anonymous_counterexample:
  "name (symbols example_state 26) = []
   \<and> map_of (fSymbols (tables example_state 2)) [] = None
   \<and> map_of (fSymbols (tables (injectWithoutOwnership example_state 2 26) 2)) [] = Some 26
   \<and> find_symbol (injectWithoutOwnership example_state 2 26) 2 [] = Some (Some 26)"
  by code_simp

subsection \<open>Overload chains\<close>

text \<open>
  C6, as the code has it. Let \<open>f\<close> be a function declaration with a name, let the parent
  chain of table \<open>t\<close> be the finite list \<open>path\<close>, and let \<open>g\<close> be the first entry for
  the name along \<open>path\<close>: the entry of \<open>t\<close> itself when it has one, otherwise the entry
  of the nearest ancestor that has one. If \<open>g\<close> is a function declaration, then
  \<open>addWithoutOwnership\<close> links \<open>nextOverload\<close> of \<open>f\<close> to \<open>g\<close> and makes \<open>f\<close> the
  entry of \<open>t\<close>, without an error. The overload chain of an entry of \<open>t\<close> therefore
  continues into the ancestor that held \<open>g\<close>.
\<close>

theorem addWithoutOwnership_links_first_in_scope_chain:
  assumes fn: "kind (symbols s f) = kFunctionDeclaration"
    and named: "name (symbols s f) \<noteq> []"
    and chain: "scope_chain (tables s) t path"
    and first: "lookup_path (tables s) path (name (symbols s f)) = Some g"
    and gfn: "kind (symbols s g) = kFunctionDeclaration"
  shows "\<exists>s'. addWithoutOwnership s t f = Some s'
           \<and> nextOverload (symbols s' f) = Some g
           \<and> map_of (fSymbols (tables s' t)) (name (symbols s f)) = Some f
           \<and> errors s' = errors s"
proof -
  have "lookup (tables s) t (name (symbols s f)) = Some (Some g)"
    using lookup_chain [OF chain] first by simp
  then have "addWithoutOwnership s t f =
      Some (set_slot t (name (symbols s f)) f (setNextOverload f g s))"
    using fn named gfn by (simp add: add_overload)
  then show ?thesis by (simp add: map_of_update_same)
qed

theorem addWithoutOwnership_links_first_in_scope_chain_witness:
  "\<exists>s'. addWithoutOwnership example_state 3 21 = Some s'
     \<and> nextOverload (symbols s' 21) = Some 11
     \<and> map_of (fSymbols (tables s' 3)) ''f'' = Some 21
     \<and> errors s' = errors example_state"
proof -
  have h1: "kind (symbols example_state 21) = kFunctionDeclaration" by code_simp
  have h2: "name (symbols example_state 21) \<noteq> []" by code_simp
  have h3: "scope_chain (tables example_state) 3 [3, 0]" by code_simp
  have h4: "lookup_path (tables example_state) [3, 0] (name (symbols example_state 21)) = Some 11"
    by code_simp
  have h5: "kind (symbols example_state 11) = kFunctionDeclaration" by code_simp
  have n: "name (symbols example_state 21) = ''f''" by code_simp
  show ?thesis
    using addWithoutOwnership_links_first_in_scope_chain [OF h1 h2 h3 h4 h5]
    unfolding n by simp
qed

text \<open>
  Overload chains are not local to one table: in the concrete state the function \<open>f\<close>
  at address \<open>11\<close> is an entry of the root table \<open>0\<close> only. After the function \<open>f\<close> at address
  \<open>21\<close> is added to the scope \<open>3\<close> below the root, the only entry of scope \<open>3\<close> is
  \<open>21\<close>, and its \<open>nextOverload\<close> is \<open>11\<close>.
\<close>

theorem overload_chain_spans_scopes_counterexample:
  "kind (symbols example_state 21) = kFunctionDeclaration
   \<and> fParent (tables example_state 3) = Some 0
   \<and> fSymbols (tables example_state 3) = []
   \<and> map_of (fSymbols (tables example_state 0)) ''f'' = Some 11
   \<and> addWithoutOwnership example_state 3 21 \<noteq> None
   \<and> fSymbols (tables (the (addWithoutOwnership example_state 3 21)) 3) = [(''f'', 21)]
   \<and> nextOverload (symbols (the (addWithoutOwnership example_state 3 21)) 21) = Some 11"
  by code_simp

lemma add_first_function:
  assumes fn: "kind (symbols s f) = kFunctionDeclaration"
    and named: "name (symbols s f) \<noteq> []"
    and lk: "lookup (tables s) t (name (symbols s f)) = Some r"
    and ok: "\<forall>e. r = Some e \<longrightarrow>
               kind (symbols s e) = kFunctionDeclaration \<or>
               (map_of (fSymbols (tables s t)) (name (symbols s f)) = None \<and>
                \<not> fAtModuleBoundary (tables s t))"
  shows "\<exists>s1. addWithoutOwnership s t f = Some s1
           \<and> errors s1 = errors s
           \<and> map_of (fSymbols (tables s1 t)) (name (symbols s f)) = Some f
           \<and> (\<forall>x. kind (symbols s1 x) = kind (symbols s x))
           \<and> (\<forall>x. name (symbols s1 x) = name (symbols s x))"
proof -
  let ?n = "name (symbols s f)"
  consider (fresh) "r = None"
    | (overload) e where "r = Some e" "kind (symbols s e) = kFunctionDeclaration"
    | (shadow) e where "r = Some e" "kind (symbols s e) \<noteq> kFunctionDeclaration"
        "map_of (fSymbols (tables s t)) ?n = None" "\<not> fAtModuleBoundary (tables s t)"
    using ok by (cases r) auto
  then show ?thesis
  proof cases
    case fresh
    have ov: "existing_overload s t f ?n = Some None"
      using lk fresh by (simp add: existing_overload_def)
    have pr: "parent_resolves s t ?n = Some False"
      using lk fresh
      by (auto simp add: parent_resolves_def lookup_None_parent split: option.splits)
    have loc: "map_of (fSymbols (tables s t)) ?n = None"
      using lk fresh by (simp add: lookup_None_local)
    show ?thesis
      using add_plain [OF named ov pr loc] by (simp add: map_of_update_same)
  next
    case overload
    then show ?thesis
      using add_overload [OF fn named] lk by (simp add: map_of_update_same)
  next
    case shadow
    have ov: "existing_overload s t f ?n = Some None"
      using lk shadow by (simp add: existing_overload_def)
    have pr: "parent_resolves s t ?n = Some False"
      using shadow by (simp add: parent_resolves_def)
    show ?thesis
      using add_plain [OF named ov pr shadow(3)] by (simp add: map_of_update_same)
  qed
qed

text \<open>
  C2, as the code has it. Let \<open>f1\<close> and \<open>f2\<close> be function declarations of the same
  name, not empty, and let the scope chain of table \<open>t\<close> resolve that name to nothing, or
  to a function declaration, or to a symbol of another kind that only an ancestor holds
  while \<open>t\<close> is not at a module boundary. Then adding \<open>f1\<close> and after it \<open>f2\<close> to \<open>t\<close>
  leaves \<open>find\<close> of the name resolving to \<open>f2\<close>, with \<open>nextOverload\<close> of \<open>f2\<close> pointing
  to \<open>f1\<close>, and neither insertion reports an error.
\<close>

theorem addWithoutOwnership_second_overload_heads_chain:
  assumes fn1: "kind (symbols s f1) = kFunctionDeclaration"
    and fn2: "kind (symbols s f2) = kFunctionDeclaration"
    and same: "name (symbols s f2) = name (symbols s f1)"
    and named: "name (symbols s f1) \<noteq> []"
    and lk: "lookup (tables s) t (name (symbols s f1)) = Some r"
    and ok: "\<forall>e. r = Some e \<longrightarrow>
               kind (symbols s e) = kFunctionDeclaration \<or>
               (map_of (fSymbols (tables s t)) (name (symbols s f1)) = None \<and>
                \<not> fAtModuleBoundary (tables s t))"
  shows "\<exists>s2. add_twice s t f1 f2 = Some s2
           \<and> find_symbol s2 t (name (symbols s f1)) = Some (Some f2)
           \<and> nextOverload (symbols s2 f2) = Some f1
           \<and> errors s2 = errors s"
proof -
  let ?n = "name (symbols s f1)"
  obtain s1 where s1: "addWithoutOwnership s t f1 = Some s1" "errors s1 = errors s"
      "map_of (fSymbols (tables s1 t)) ?n = Some f1"
      "\<forall>x. kind (symbols s1 x) = kind (symbols s x)"
      "\<forall>x. name (symbols s1 x) = name (symbols s x)"
    using add_first_function [OF fn1 named lk ok] by blast
  have n2: "name (symbols s1 f2) = ?n" using s1(5) same by simp
  have "lookup (tables s1) t (name (symbols s1 f2)) = Some (Some f1)"
    using s1(3) n2 by (simp add: lookup_local)
  moreover have "kind (symbols s1 f2) = kFunctionDeclaration"
      "kind (symbols s1 f1) = kFunctionDeclaration"
    using s1(4) fn1 fn2 by simp_all
  moreover have "name (symbols s1 f2) \<noteq> []" using n2 named by simp
  ultimately have step2: "addWithoutOwnership s1 t f2 =
      Some (set_slot t ?n f2 (setNextOverload f2 f1 s1))"
    using add_overload [of s1 f2 t f1] n2 by simp
  show ?thesis
  proof (intro exI conjI)
    show "add_twice s t f1 f2 = Some (set_slot t ?n f2 (setNextOverload f2 f1 s1))"
      using s1(1) step2 by (simp add: add_twice_def)
    show "find_symbol (set_slot t ?n f2 (setNextOverload f2 f1 s1)) t ?n = Some (Some f2)"
      by (rule find_after_set_slot)
  qed (simp_all add: s1(2))
qed

theorem addWithoutOwnership_second_overload_heads_chain_witness:
  "\<exists>s2. add_twice example_state 3 21 22 = Some s2
     \<and> find_symbol s2 3 ''f'' = Some (Some 22)
     \<and> nextOverload (symbols s2 22) = Some 21
     \<and> errors s2 = errors example_state"
proof -
  have h1: "kind (symbols example_state 21) = kFunctionDeclaration" by code_simp
  have h2: "kind (symbols example_state 22) = kFunctionDeclaration" by code_simp
  have h3: "name (symbols example_state 22) = name (symbols example_state 21)" by code_simp
  have h4: "name (symbols example_state 21) \<noteq> []" by code_simp
  have h5: "lookup (tables example_state) 3 (name (symbols example_state 21)) = Some (Some 11)"
    by code_simp
  have k: "kind (symbols example_state 11) = kFunctionDeclaration" by code_simp
  have h6: "\<forall>e. Some 11 = Some e \<longrightarrow>
      kind (symbols example_state e) = kFunctionDeclaration \<or>
      (map_of (fSymbols (tables example_state 3)) (name (symbols example_state 21)) = None \<and>
       \<not> fAtModuleBoundary (tables example_state 3))"
    using k by simp
  have n: "name (symbols example_state 21) = ''f''" by code_simp
  show ?thesis
    using addWithoutOwnership_second_overload_heads_chain [OF h1 h2 h3 h4 h5 h6]
    unfolding n by simp
qed

text \<open>
  Read for every table, the property fails for a table at the module boundary whose parent
  resolves the name to a variable: in the concrete state, table \<open>1\<close> is such a table for
  the name \<open>x\<close>. Both function declarations named \<open>x\<close> are rejected, each with an
  error; \<open>find\<close> keeps resolving to the variable of the root table and no overload link
  is set.
\<close>

theorem two_functions_at_module_boundary_counterexample:
  "kind (symbols example_state 24) = kFunctionDeclaration
   \<and> kind (symbols example_state 25) = kFunctionDeclaration
   \<and> name (symbols example_state 24) = ''x''
   \<and> name (symbols example_state 25) = ''x''
   \<and> add_twice example_state 1 24 25 \<noteq> None
   \<and> find_symbol (the (add_twice example_state 1 24 25)) 1 ''x'' = Some (Some 10)
   \<and> nextOverload (symbols (the (add_twice example_state 1 24 25)) 25) = None
   \<and> errors (the (add_twice example_state 1 24 25)) =
       [(24, already_defined ''x''), (25, already_defined ''x'')]"
  by code_simp

subsection \<open>Array types are kept once\<close>

lemma addArrayDimension_stop:
  assumes "n \<noteq> 0"
    and "\<not> isInBuiltinTypes (symbols s ty) \<or> fParent (tables s t) = None \<or>
         fAtModuleBoundary (tables s t)"
  shows "addArrayDimension gan s t ty n = array_type_here gan s t ty n"
  using assms by (subst addArrayDimension.simps) (auto split: option.splits)

lemma addArrayDimension_delegate:
  assumes "n \<noteq> 0" "isInBuiltinTypes (symbols s ty)" "fParent (tables s t) = Some p"
    "\<not> fAtModuleBoundary (tables s t)"
  shows "addArrayDimension gan s t ty n = addArrayDimension gan s p ty n"
  using assms by (subst addArrayDimension.simps) simp

lemma delegates_eq:
  "delegates (tables s) a pa g \<Longrightarrow> isInBuiltinTypes (symbols s ty) \<Longrightarrow> n \<noteq> 0 \<Longrightarrow>
   addArrayDimension gan s a ty n = addArrayDimension gan s g ty n"
proof (induction pa arbitrary: a)
  case Nil
  then show ?case by simp
next
  case (Cons x xs)
  then obtain p where p: "fParent (tables s a) = Some p" "delegates (tables s) p xs g"
    "\<not> fAtModuleBoundary (tables s a)"
    by (auto split: option.splits)
  have "addArrayDimension gan s a ty n = addArrayDimension gan s p ty n"
    using Cons.prems p by (simp add: addArrayDimension_delegate)
  then show ?case using Cons.IH [OF p(2)] Cons.prems by simp
qed

lemma delegates_cong:
  "delegates ts a pa g \<Longrightarrow>
   \<forall>x. fParent (ts' x) = fParent (ts x) \<and> fAtModuleBoundary (ts' x) = fAtModuleBoundary (ts x) \<Longrightarrow>
   delegates ts' a pa g"
  by (induction pa arbitrary: a) (auto split: option.splits)

lemma array_type_here_cached:
  assumes chain: "scope_chain (tables s) r pr"
    and alloc: "ty < next_symbol s"
    and named: "gan (symbols s ty) n \<noteq> []"
  shows "\<exists>p s1. array_type_here gan s r ty n = Some (p, s1)
           \<and> array_type_here gan s1 r ty n = Some (p, s1)
           \<and> symbols s1 ty = symbols s ty \<and> same_shape s s1
           \<and> next_symbol s1 \<le> Suc (next_symbol s)
           \<and> find_symbol s1 r (gan (symbols s ty) n) = Some (Some p)
           \<and> (\<forall>e. find_symbol s r (gan (symbols s ty) n) = Some (Some e) \<longrightarrow> p = e \<and> s1 = s)
           \<and> (find_symbol s r (gan (symbols s ty) n) = Some None \<longrightarrow>
                p = next_symbol s \<and> next_symbol s1 = Suc (next_symbol s)
                \<and> name (symbols s1 p) = gan (symbols s ty) n
                \<and> kind (symbols s1 p) = kType
                \<and> arrayOf (symbols s1 p) = Some (ty, n)
                \<and> map_of (fSymbols (tables s1 r)) (gan (symbols s ty) n) = Some p
                \<and> fOwnedStrings (tables s1 r) = gan (symbols s ty) n # fOwnedStrings (tables s r))"
proof -
  let ?a = "gan (symbols s ty) n"
  obtain y where y: "find_symbol s r ?a = Some y"
    using lookup_chain [OF chain] by (simp add: find_symbol_def MakeSymbolKey_def)
  show ?thesis
  proof (cases y)
    case (Some e)
    then have "array_type_here gan s r ty n = Some (e, s)"
      using y by (simp add: array_type_here_def)
    then show ?thesis using y Some by (auto simp add: same_shape_def)
  next
    case None
    let ?s1 = "takeOwnershipOfString s r ?a"
    let ?new = "next_symbol s"
    let ?s2 = "snd (MakeArrayType ?s1 ?a ty n)"
    let ?s3 = "set_slot r ?a ?new ?s2"
    have new: "fst (MakeArrayType ?s1 ?a ty n) = ?new"
      by (simp add: MakeArrayType_def takeOwnershipOfString_def)
    have lk: "lookup (tables s) r ?a = Some None"
      using y None by (simp add: find_symbol_def MakeSymbolKey_def)
    have t2: "\<forall>x. fParent (tables ?s2 x) = fParent (tables s x)"
      "\<forall>x. fSymbols (tables ?s2 x) = fSymbols (tables s x)"
      "\<forall>x. fAtModuleBoundary (tables ?s2 x) = fAtModuleBoundary (tables s x)"
      by (simp_all add: MakeArrayType_def takeOwnershipOfString_def)
    have nm: "name (symbols ?s2 ?new) = ?a" "kind (symbols ?s2 ?new) = kType"
      "arrayOf (symbols ?s2 ?new) = Some (ty, n)"
      by (simp_all add: MakeArrayType_def takeOwnershipOfString_def)
    have ov: "existing_overload ?s2 r ?new ?a = Some None"
      using nm by (simp add: existing_overload_def)
    have pr: "parent_resolves ?s2 r ?a = Some False"
    proof (cases "fParent (tables s r)")
      case None
      then show ?thesis using t2 by (simp add: parent_resolves_def)
    next
      case (Some q)
      obtain rest where "scope_chain (tables s) q rest"
        using scope_chain_parent [OF chain Some] by blast
      then have "lookup (tables ?s2) q ?a = lookup (tables s) q ?a"
        using t2 by (intro lookup_cong) auto
      also have "\<dots> = Some None" using lk Some by (rule lookup_None_parent)
      finally show ?thesis using Some t2 by (simp add: parent_resolves_def)
    qed
    have loc: "map_of (fSymbols (tables ?s2 r)) ?a = None"
      using lookup_None_local [OF lk] t2 by simp
    have add: "addWithoutOwnership ?s2 r ?new = Some ?s3"
      using add_plain [of ?s2 ?new r] nm named ov pr loc by simp
    have first: "array_type_here gan s r ty n = Some (?new, ?s3)"
      using y None add new
      by (simp add: array_type_here_def add_symbol_def Let_def split_beta)
    have ty3: "symbols ?s3 ty = symbols s ty"
      using alloc by (simp add: MakeArrayType_def takeOwnershipOfString_def)
    have found: "find_symbol ?s3 r ?a = Some (Some ?new)" by (rule find_after_set_slot)
    then have second: "array_type_here gan ?s3 r ty n = Some (?new, ?s3)"
      using ty3 by (simp add: array_type_here_def Let_def)
    have shape: "same_shape s ?s3"
      using t2 by (simp add: same_shape_def)
    have nxt: "next_symbol ?s3 \<le> Suc (next_symbol s)"
      by (simp add: MakeArrayType_def takeOwnershipOfString_def)
    have hit: "\<forall>e. find_symbol s r ?a = Some (Some e) \<longrightarrow> ?new = e \<and> ?s3 = s"
      using y None by simp
    have made: "next_symbol ?s3 = Suc (next_symbol s)"
      "name (symbols ?s3 ?new) = ?a" "kind (symbols ?s3 ?new) = kType"
      "arrayOf (symbols ?s3 ?new) = Some (ty, n)"
      "map_of (fSymbols (tables ?s3 r)) ?a = Some ?new"
      "fOwnedStrings (tables ?s3 r) = ?a # fOwnedStrings (tables s r)"
      using nm
      by (simp_all add: MakeArrayType_def takeOwnershipOfString_def map_of_update_same)
    show ?thesis
    proof (intro exI conjI)
      show "array_type_here gan s r ty n = Some (?new, ?s3)" by (rule first)
      show "find_symbol s r ?a = Some None \<longrightarrow>
          ?new = next_symbol s \<and> next_symbol ?s3 = Suc (next_symbol s)
          \<and> name (symbols ?s3 ?new) = ?a \<and> kind (symbols ?s3 ?new) = kType
          \<and> arrayOf (symbols ?s3 ?new) = Some (ty, n)
          \<and> map_of (fSymbols (tables ?s3 r)) ?a = Some ?new
          \<and> fOwnedStrings (tables ?s3 r) = ?a # fOwnedStrings (tables s r)"
        using made by simp
    qed (rule second ty3 shape nxt found hit)+
  qed
qed

text \<open>
  C4. Let \<open>ty\<close> be a builtin type (an object that exists already), let the size \<open>n\<close> be
  nonzero and the array name not empty. Let \<open>a\<close> and \<open>b\<close> be two tables from which the
  parent pointers lead to the same ancestor \<open>g\<close> through tables that have a parent and are
  not at a module boundary; let \<open>r\<close> be the table, \<open>g\<close> itself or above it, at which that
  walk ends because \<open>r\<close> has no parent or is at a module boundary, and let the parent
  chain of \<open>r\<close> be finite. Then \<open>addArrayDimension\<close> called at \<open>a\<close> and, in the state it
  leaves, at \<open>b\<close> returns the same address \<open>p\<close> both times, and the second call leaves
  the state as it found it. \<open>p\<close> is what \<open>find\<close> of the array name gives in \<open>r\<close> after
  the calls. If \<open>find\<close> in \<open>r\<close> resolved the array name before the first call, \<open>p\<close> is
  that symbol and the first call changes nothing either. Otherwise the first call
  allocates exactly one object, \<open>p\<close>, a type of the array name that records \<open>ty\<close> and
  \<open>n\<close>, enters it in the mapping of \<open>r\<close> and adds the array name to the owned strings
  of \<open>r\<close>.
\<close>

theorem addArrayDimension_shared_instance:
  assumes builtin: "isInBuiltinTypes (symbols s ty)"
    and alloc: "ty < next_symbol s"
    and size: "n \<noteq> 0"
    and named: "getArrayName (symbols s ty) n \<noteq> []"
    and da: "delegates (tables s) a pa g"
    and db: "delegates (tables s) b pb g"
    and dg: "delegates (tables s) g pg r"
    and stop: "fParent (tables s r) = None \<or> fAtModuleBoundary (tables s r)"
    and chain: "scope_chain (tables s) r pr"
  shows "\<exists>p s1. addArrayDimension getArrayName s a ty n = Some (p, s1)
           \<and> addArrayDimension getArrayName s1 b ty n = Some (p, s1)
           \<and> next_symbol s1 \<le> Suc (next_symbol s)
           \<and> find_symbol s1 r (getArrayName (symbols s ty) n) = Some (Some p)
           \<and> (\<forall>e. find_symbol s r (getArrayName (symbols s ty) n) = Some (Some e) \<longrightarrow>
                p = e \<and> s1 = s)
           \<and> (find_symbol s r (getArrayName (symbols s ty) n) = Some None \<longrightarrow>
                p = next_symbol s \<and> next_symbol s1 = Suc (next_symbol s)
                \<and> name (symbols s1 p) = getArrayName (symbols s ty) n
                \<and> kind (symbols s1 p) = kType
                \<and> arrayOf (symbols s1 p) = Some (ty, n)
                \<and> map_of (fSymbols (tables s1 r)) (getArrayName (symbols s ty) n) = Some p
                \<and> fOwnedStrings (tables s1 r) =
                    getArrayName (symbols s ty) n # fOwnedStrings (tables s r))"
proof -
  let ?an = "getArrayName (symbols s ty) n"
  obtain p s1 where h: "array_type_here getArrayName s r ty n = Some (p, s1)"
      "array_type_here getArrayName s1 r ty n = Some (p, s1)"
      "symbols s1 ty = symbols s ty" "same_shape s s1" "next_symbol s1 \<le> Suc (next_symbol s)"
      "find_symbol s1 r ?an = Some (Some p)"
      "\<forall>e. find_symbol s r ?an = Some (Some e) \<longrightarrow> p = e \<and> s1 = s"
      "find_symbol s r ?an = Some None \<longrightarrow>
         p = next_symbol s \<and> next_symbol s1 = Suc (next_symbol s)
         \<and> name (symbols s1 p) = ?an \<and> kind (symbols s1 p) = kType
         \<and> arrayOf (symbols s1 p) = Some (ty, n)
         \<and> map_of (fSymbols (tables s1 r)) ?an = Some p
         \<and> fOwnedStrings (tables s1 r) = ?an # fOwnedStrings (tables s r)"
    using array_type_here_cached [where gan = getArrayName, OF chain alloc named] by blast
  have shape: "\<forall>x. fParent (tables s1 x) = fParent (tables s x) \<and>
      fAtModuleBoundary (tables s1 x) = fAtModuleBoundary (tables s x)"
    using h(4) by (simp add: same_shape_def)
  have builtin1: "isInBuiltinTypes (symbols s1 ty)" using builtin h(3) by simp
  have stop1: "fParent (tables s1 r) = None \<or> fAtModuleBoundary (tables s1 r)"
    using stop shape by simp
  have at_r: "addArrayDimension getArrayName s r ty n = Some (p, s1)"
    using addArrayDimension_stop [of n s ty r getArrayName] size stop h(1) by auto
  have at_r1: "addArrayDimension getArrayName s1 r ty n = Some (p, s1)"
    using addArrayDimension_stop [of n s1 ty r getArrayName] size stop1 h(2) by auto
  have "addArrayDimension getArrayName s a ty n = addArrayDimension getArrayName s g ty n"
    using da builtin size by (rule delegates_eq)
  also have "\<dots> = addArrayDimension getArrayName s r ty n"
    using dg builtin size by (rule delegates_eq)
  finally have first: "addArrayDimension getArrayName s a ty n = Some (p, s1)"
    using at_r by simp
  have db1: "delegates (tables s1) b pb g" using db shape by (rule delegates_cong)
  have dg1: "delegates (tables s1) g pg r" using dg shape by (rule delegates_cong)
  have "addArrayDimension getArrayName s1 b ty n = addArrayDimension getArrayName s1 g ty n"
    using db1 builtin1 size by (rule delegates_eq)
  also have "\<dots> = addArrayDimension getArrayName s1 r ty n"
    using dg1 builtin1 size by (rule delegates_eq)
  finally have second: "addArrayDimension getArrayName s1 b ty n = Some (p, s1)"
    using at_r1 by simp
  show ?thesis
  proof (intro exI conjI)
    show "addArrayDimension getArrayName s a ty n = Some (p, s1)" by (rule first)
  qed (rule second h(5) h(6) h(7) h(8))+
qed

theorem addArrayDimension_shared_instance_witness:
  "\<exists>s1. addArrayDimension bracket_name example_state 2 12 4 = Some (30, s1)
     \<and> addArrayDimension bracket_name s1 3 12 4 = Some (30, s1)
     \<and> next_symbol s1 = 31
     \<and> find_symbol s1 0 ''float[]'' = Some (Some 30)
     \<and> name (symbols s1 30) = ''float[]''
     \<and> kind (symbols s1 30) = kType
     \<and> arrayOf (symbols s1 30) = Some (12, 4)
     \<and> fOwnedStrings (tables s1 0) = [''float[]'']"
proof -
  have h1: "isInBuiltinTypes (symbols example_state 12)" by code_simp
  have h2: "12 < next_symbol example_state" by code_simp
  have h3: "(4::int) \<noteq> 0" by simp
  have h4: "bracket_name (symbols example_state 12) 4 \<noteq> []" by code_simp
  have h5: "delegates (tables example_state) 2 [2] 0" by code_simp
  have h6: "delegates (tables example_state) 3 [3] 0" by code_simp
  have h7: "delegates (tables example_state) 0 [] 0" by code_simp
  have h8: "fParent (tables example_state 0) = None \<or> fAtModuleBoundary (tables example_state 0)"
    by code_simp
  have h9: "scope_chain (tables example_state) 0 [0]" by code_simp
  have an: "bracket_name (symbols example_state 12) 4 = ''float[]''" by code_simp
  have fresh: "find_symbol example_state 0 ''float[]'' = Some None" by code_simp
  have nx: "next_symbol example_state = 30" by code_simp
  have os: "fOwnedStrings (tables example_state 0) = []" by code_simp
  show ?thesis
    using addArrayDimension_shared_instance
      [where getArrayName = bracket_name, OF h1 h2 h3 h4 h5 h6 h7 h8 h9] fresh
    unfolding an nx os by auto
qed

subsection \<open>Renaming an overload set\<close>

lemma overload_chain_rename:
  "overload_chain (h(a := (h a)\<lparr>name := n\<rparr>)) p xs = overload_chain h p xs"
proof (induction xs arbitrary: p)
  case Nil
  then show ?case by (cases p) simp_all
next
  case (Cons x xs)
  then show ?case by (cases p) auto
qed

lemma rename_overloads_chain:
  "overload_chain h p xs \<Longrightarrow> rename_overloads h p n = Some (renamed h xs n)"
proof (induction xs arbitrary: h p)
  case Nil
  then have "p = None" by (cases p) simp_all
  then show ?case by (subst rename_overloads.simps) (simp add: renamed_def)
next
  case (Cons x xs)
  then obtain a where p: "p = Some a" "a = x" "overload_chain h (nextOverload (h a)) xs"
    by (cases p) auto
  let ?h = "h(a := (h a)\<lparr>name := n\<rparr>)"
  have "overload_chain ?h (nextOverload (h a)) xs"
    using p(3) by (simp only: overload_chain_rename)
  then have "rename_overloads ?h (nextOverload (h a)) n = Some (renamed ?h xs n)"
    by (rule Cons.IH)
  moreover have "renamed ?h xs n = renamed h (x # xs) n"
    using p(2) by (auto simp add: renamed_def fun_eq_iff)
  ultimately show ?case
    using p(1) by (subst rename_overloads.simps) simp
qed

lemma overload_chain_renamed:
  "overload_chain (renamed h ys n) p xs = overload_chain h p xs"
proof (induction xs arbitrary: p)
  case Nil
  then show ?case by (cases p) simp_all
next
  case (Cons x xs)
  then show ?case by (cases p) (auto simp add: renamed_def)
qed

lemma overload_chain_head: "overload_chain h (Some f) xs \<Longrightarrow> f \<in> set xs"
  by (cases xs) auto

text \<open>
  C5, as the code has it. Let \<open>f\<close> be a function declaration that table \<open>t\<close> holds
  under \<open>oldName\<close>, with the finite overload chain \<open>xs\<close>. Let \<open>newName\<close> be not empty,
  not resolved to a function declaration by the scope chain of \<open>t\<close>, and not rejected at
  a module boundary. Then \<open>renameSymbol\<close> returns; every member of the chain has the name
  \<open>newName\<close> and the chain is the same list as before; \<open>find\<close> of \<open>newName\<close> resolves to
  \<open>f\<close>. The entry under \<open>oldName\<close> is not removed: \<open>find\<close> of \<open>oldName\<close> still
  resolves to \<open>f\<close>.
\<close>

theorem renameSymbol_renames_overload_chain:
  assumes fn: "kind (symbols s f) = kFunctionDeclaration"
    and chain: "overload_chain (symbols s) (Some f) xs"
    and registered: "map_of (fSymbols (tables s t)) oldName = Some f"
    and named: "newName \<noteq> []"
    and lk: "lookup (tables s) t newName = Some r"
    and notfn: "\<forall>e. r = Some e \<longrightarrow> kind (symbols s e) \<noteq> kFunctionDeclaration"
    and noclash: "parent_resolves s t newName = Some False"
  shows "\<exists>s'. renameSymbol s t f newName = Some s'
           \<and> (\<forall>x \<in> set xs. name (symbols s' x) = newName)
           \<and> overload_chain (symbols s') (Some f) xs
           \<and> find_symbol s' t newName = Some (Some f)
           \<and> find_symbol s' t oldName = Some (Some f)"
proof -
  let ?h = "renamed (symbols s) xs newName"
  let ?sr = "s\<lparr>symbols := ?h\<rparr>"
  have ren: "rename_overloads (symbols s) (Some f) newName = Some ?h"
    using chain by (rule rename_overloads_chain)
  have step: "renameSymbol s t f newName = addWithoutOwnership ?sr t f"
    using fn ren by (simp add: renameSymbol_def)
  have nm: "name (symbols ?sr f) = newName"
    using overload_chain_head [OF chain] by (simp add: renamed_def)
  have kd: "kind (?h e) = kind (symbols s e)" for e
    by (simp add: renamed_def)
  have ov: "existing_overload ?sr t f newName = Some None"
    using lk notfn by (cases r) (simp_all add: existing_overload_def kd del: fun_upd_apply)
  have pr: "parent_resolves ?sr t newName = Some False"
    using noclash by (simp only: parent_resolves_symbols)
  have diff: "oldName \<noteq> newName"
  proof
    assume "oldName = newName"
    then have "lookup (tables s) t newName = Some (Some f)"
      using registered by (simp add: lookup_local)
    then show False using lk notfn fn by simp
  qed
  define s' where "s' = (case map_of (fSymbols (tables s t)) newName of
      None \<Rightarrow> set_slot t newName f ?sr
    | Some old \<Rightarrow> ReportError (already_defined (name (symbols ?sr old)))
                    (fPosition (symbols ?sr f)) (set_slot t newName f ?sr))"
  have run: "addWithoutOwnership ?sr t f = Some s'"
    using nm named ov pr
    by (simp add: addWithoutOwnership_def MakeSymbolKey_def s'_def split: option.splits)
  have tabs: "tables s' = tables (set_slot t newName f ?sr)" and syms: "symbols s' = ?h"
    by (simp_all add: s'_def split: option.splits)
  have slot_new: "map_of (fSymbols (tables s' t)) newName = Some f"
    by (simp add: tabs map_of_update_same)
  have slot_old: "map_of (fSymbols (tables s' t)) oldName = Some f"
    using registered diff by (simp add: tabs update_conv')
  show ?thesis
  proof (intro exI conjI)
    show "renameSymbol s t f newName = Some s'" using step run by simp
    show "\<forall>x \<in> set xs. name (symbols s' x) = newName" by (simp add: syms renamed_def)
    show "overload_chain (symbols s') (Some f) xs"
      using chain by (simp only: syms overload_chain_renamed)
    show "find_symbol s' t newName = Some (Some f)"
      using slot_new by (simp add: find_symbol_def MakeSymbolKey_def lookup_local)
    show "find_symbol s' t oldName = Some (Some f)"
      using slot_old by (simp add: find_symbol_def MakeSymbolKey_def lookup_local)
  qed
qed

theorem renameSymbol_renames_overload_chain_witness:
  "\<exists>s'. renameSymbol example_state 2 14 ''g'' = Some s'
     \<and> name (symbols s' 14) = ''g'' \<and> name (symbols s' 15) = ''g''
     \<and> overload_chain (symbols s') (Some 14) [14, 15]
     \<and> find_symbol s' 2 ''g'' = Some (Some 14)
     \<and> find_symbol s' 2 ''h'' = Some (Some 14)"
proof -
  have h1: "kind (symbols example_state 14) = kFunctionDeclaration" by code_simp
  have h2: "overload_chain (symbols example_state) (Some 14) [14, 15]" by code_simp
  have h3: "map_of (fSymbols (tables example_state 2)) ''h'' = Some 14" by code_simp
  have h4: "''g'' \<noteq> []" by simp
  have h5: "lookup (tables example_state) 2 ''g'' = Some None" by code_simp
  have h6: "\<forall>e. None = Some e \<longrightarrow> kind (symbols example_state e) \<noteq> kFunctionDeclaration"
    by simp
  have h7: "parent_resolves example_state 2 ''g'' = Some False" by code_simp
  show ?thesis
    using renameSymbol_renames_overload_chain [OF h1 h2 h3 h4 h5 h6 h7] by simp
qed

text \<open>
  The old name keeps resolving: in the concrete state the function \<open>h\<close> at address
  \<open>14\<close> is held by table \<open>2\<close>. After it is renamed to \<open>g\<close>, \<open>find\<close> of the old name
  \<open>h\<close> in table \<open>2\<close> still resolves to it.
\<close>

theorem renameSymbol_keeps_old_entry_counterexample:
  "kind (symbols example_state 14) = kFunctionDeclaration
   \<and> map_of (fSymbols (tables example_state 2)) ''h'' = Some 14
   \<and> renameSymbol example_state 2 14 ''g'' \<noteq> None
   \<and> find_symbol (the (renameSymbol example_state 2 14 ''g'')) 2 ''h'' = Some (Some 14)
   \<and> find_symbol (the (renameSymbol example_state 2 14 ''g'')) 2 ''g'' = Some (Some 14)"
  by code_simp

text \<open>
  The conditions on \<open>newName\<close> are needed: when the scope chain already resolves the new
  name to a function declaration, \<open>nextOverload\<close> of the renamed head is overwritten
  with that declaration, and the former tail of the chain, although renamed, is no longer
  reached from the head. In the concrete state, renaming \<open>h\<close> to \<open>f\<close> links \<open>14\<close>
  to the function \<open>f\<close> of the root table instead of \<open>15\<close>.
\<close>

lemma renameSymbol_onto_function_detaches_tail:
  "nextOverload (symbols example_state 14) = Some 15
   \<and> renameSymbol example_state 2 14 ''f'' \<noteq> None
   \<and> nextOverload (symbols (the (renameSymbol example_state 2 14 ''f'')) 14) = Some 11
   \<and> name (symbols (the (renameSymbol example_state 2 14 ''f'')) 15) = ''f''"
  by code_simp

subsection \<open>Queries leave the tables alone\<close>

lemma find_symbol_returns:
  "scope_chain (tables s) t path \<Longrightarrow> \<exists>r. find_symbol s t n = Some r"
  using lookup_chain [of "tables s" t path] by (simp add: find_symbol_def)

lemma lookup_call_chain:
  "scope_chain ts t path \<Longrightarrow> ts = tables s \<Longrightarrow>
   lookup_call s t key = Some (lookup_path (tables s) path key, s)"
proof (induction ts t path rule: scope_chain.induct)
  case (1 ts t)
  then show ?case by simp
next
  case (2 ts t x)
  then show ?case by (subst lookup_call.simps) (auto split: option.splits)
next
  case (3 ts t x y ys)
  then show ?case by (subst lookup_call.simps) (auto split: option.splits)
qed

lemma find_call_frame:
  assumes "scope_chain (tables s) t path"
  shows "\<exists>r. find_call s t n = Some (r, s) \<and> find_symbol s t n = Some r"
  using lookup_call_chain [OF assms refl] lookup_chain [OF assms]
  by (simp add: find_call_def find_symbol_def)

lemma isType_call_frame:
  assumes "scope_chain (tables s) t path"
  shows "\<exists>b. isType_call s t n = Some (b, s) \<and> isType s t n = Some b"
proof -
  obtain r where r: "find_call s t n = Some (r, s)" "find_symbol s t n = Some r"
    using find_call_frame [OF assms] by blast
  then show ?thesis by (cases r) (auto simp add: isType_call_def isType_def)
qed

lemma isBuiltinType_call_frame:
  "scope_chain ts t path \<Longrightarrow> ts = tables s \<Longrightarrow>
   \<exists>b. isBuiltinType_call s t n = Some (b, s) \<and> isBuiltinType s t n = Some b"
proof (induction ts t path rule: scope_chain.induct)
  case (1 ts t)
  then show ?case by simp
next
  case (2 ts t x)
  then have root: "fParent (tables s t) = None" and ch: "scope_chain (tables s) t [x]" by auto
  show ?case
    using root isType_call_frame [OF ch, of n]
    by (subst isBuiltinType_call.simps, subst isBuiltinType.simps) auto
next
  case (3 ts t x y ys)
  then have par: "fParent (tables s t) = Some y" and ch: "scope_chain (tables s) t (x # y # ys)"
    and up: "scope_chain ts y (y # ys)" and ts: "ts = tables s" by auto
  show ?case
    using par isType_call_frame [OF ch, of n] "3.IH" [OF up ts]
    by (subst isBuiltinType_call.simps, subst isBuiltinType.simps) auto
qed

lemma findBuiltinSymbol_call_frame:
  "scope_chain ts t path \<Longrightarrow> ts = tables s \<Longrightarrow>
   \<exists>r. findBuiltinSymbol_call s t n = Some (r, s) \<and> findBuiltinSymbol s t n = Some r"
proof (induction ts t path rule: scope_chain.induct)
  case (1 ts t)
  then show ?case by simp
next
  case (2 ts t x)
  then have root: "fParent (tables s t) = None" and ch: "scope_chain (tables s) t [x]" by auto
  show ?case
    using root find_call_frame [OF ch, of n]
    by (subst findBuiltinSymbol_call.simps, subst findBuiltinSymbol.simps) auto
next
  case (3 ts t x y ys)
  then have par: "fParent (tables s t) = Some y" and ch: "scope_chain (tables s) t (x # y # ys)"
    and up: "scope_chain ts y (y # ys)" and ts: "ts = tables s" by auto
  show ?case
    using par find_call_frame [OF ch, of n] "3.IH" [OF up ts]
    by (subst findBuiltinSymbol_call.simps, subst findBuiltinSymbol.simps) auto
qed

lemma shadow_fold_frame:
  "fold (shadow_step other) entries (found, s) =
     (fold (\<lambda>(key, symbol) foundShadow.
              if foundShadow then foundShadow
              else if map_of (fSymbols (tables s other)) key \<noteq> None then True
              else foundShadow) entries found, s)"
  by (induction entries arbitrary: found) (auto simp add: shadow_step_def)

lemma wouldShadowSymbolsFrom_call_frame:
  "wouldShadowSymbolsFrom_call s a b = (wouldShadowSymbolsFrom s a b, s)"
  by (simp add: wouldShadowSymbolsFrom_call_def wouldShadowSymbolsFrom_def shadow_fold_frame)

lemma instantiateSymbolRef_frame:
  assumes "find_symbol s t n = Some y"
  shows "\<exists>r s'. instantiateSymbolRef s t n pos = Some (r, s')
           \<and> tables s' = tables s \<and> symbols s' = symbols s
           \<and> next_symbol s' = next_symbol s"
  using assms
  by (cases y; cases "kind (symbols s (the y))")
    (simp_all add: instantiateSymbolRef_def Let_def)

text \<open>
  C10. Each of the seven operations is run as a call, from the state before it to its
  result and the state after it, on a table with a finite parent chain. \<open>lookup\<close>,
  \<open>find\<close>, \<open>isType\<close>, \<open>isBuiltinType\<close> and \<open>findBuiltinSymbol\<close> return, with the state
  they were called in; so does \<open>wouldShadowSymbolsFrom\<close> for any two tables. In that state
  every table has the mapping, the owned strings, the parent link and the two flags it had
  before. The result of each call is the value of the function of the same name that reads
  the state. \<open>instantiateSymbolRef\<close>, which reports errors, returns with a state whose
  tables, symbol objects and allocator are those before the call.
\<close>

theorem queries_leave_tables_unchanged:
  assumes chain: "scope_chain (tables s) t path"
  shows "(\<exists>r. lookup_call s t key = Some (r, s) \<and> lookup (tables s) t key = Some r)
         \<and> (\<exists>r. find_call s t n = Some (r, s) \<and> find_symbol s t n = Some r)
         \<and> (\<exists>b. isType_call s t n = Some (b, s) \<and> isType s t n = Some b)
         \<and> (\<exists>b. isBuiltinType_call s t n = Some (b, s) \<and> isBuiltinType s t n = Some b)
         \<and> (\<exists>r. findBuiltinSymbol_call s t n = Some (r, s) \<and> findBuiltinSymbol s t n = Some r)
         \<and> wouldShadowSymbolsFrom_call s t other = (wouldShadowSymbolsFrom s t other, s)
         \<and> wouldShadowSymbolsFrom_call s other t = (wouldShadowSymbolsFrom s other t, s)
         \<and> (\<exists>r s'. instantiateSymbolRef s t n pos = Some (r, s')
               \<and> tables s' = tables s \<and> symbols s' = symbols s
               \<and> next_symbol s' = next_symbol s)"
proof (intro conjI)
  show "\<exists>r. lookup_call s t key = Some (r, s) \<and> lookup (tables s) t key = Some r"
    using lookup_call_chain [OF chain refl] lookup_chain [OF chain] by simp
  show "\<exists>r. find_call s t n = Some (r, s) \<and> find_symbol s t n = Some r"
    using chain by (rule find_call_frame)
  show "\<exists>b. isType_call s t n = Some (b, s) \<and> isType s t n = Some b"
    using chain by (rule isType_call_frame)
  show "\<exists>b. isBuiltinType_call s t n = Some (b, s) \<and> isBuiltinType s t n = Some b"
    using chain refl by (rule isBuiltinType_call_frame)
  show "\<exists>r. findBuiltinSymbol_call s t n = Some (r, s) \<and> findBuiltinSymbol s t n = Some r"
    using chain refl by (rule findBuiltinSymbol_call_frame)
  show "wouldShadowSymbolsFrom_call s t other = (wouldShadowSymbolsFrom s t other, s)"
    by (rule wouldShadowSymbolsFrom_call_frame)
  show "wouldShadowSymbolsFrom_call s other t = (wouldShadowSymbolsFrom s other t, s)"
    by (rule wouldShadowSymbolsFrom_call_frame)
  obtain y where "find_symbol s t n = Some y"
    using find_symbol_returns [OF chain] by blast
  then show "\<exists>r s'. instantiateSymbolRef s t n pos = Some (r, s')
      \<and> tables s' = tables s \<and> symbols s' = symbols s \<and> next_symbol s' = next_symbol s"
    by (rule instantiateSymbolRef_frame)
qed

theorem queries_leave_tables_unchanged_witness:
  "lookup_call example_state 2 ''x'' = Some (Some 10, example_state)
   \<and> find_call example_state 2 ''x'' = Some (Some 10, example_state)
   \<and> isType_call example_state 2 ''float'' = Some (True, example_state)
   \<and> isBuiltinType_call example_state 2 ''float'' = Some (True, example_state)
   \<and> findBuiltinSymbol_call example_state 2 ''f'' = Some (Some 11, example_state)
   \<and> wouldShadowSymbolsFrom_call example_state 2 0 = (False, example_state)
   \<and> (\<exists>r s'. instantiateSymbolRef example_state 2 ''x'' 77 = Some (r, s')
         \<and> tables s' = tables example_state \<and> symbols s' = symbols example_state
         \<and> next_symbol s' = next_symbol example_state)"
proof -
  have h: "scope_chain (tables example_state) 2 [2, 0]" by code_simp
  have v1: "lookup (tables example_state) 2 ''x'' = Some (Some 10)" by code_simp
  have v2: "find_symbol example_state 2 ''x'' = Some (Some 10)" by code_simp
  have v3: "isType example_state 2 ''float'' = Some True" by code_simp
  have v4: "isBuiltinType example_state 2 ''float'' = Some True" by code_simp
  have v5: "findBuiltinSymbol example_state 2 ''f'' = Some (Some 11)" by code_simp
  have v6: "wouldShadowSymbolsFrom example_state 2 0 = False" by code_simp
  show ?thesis
    using queries_leave_tables_unchanged [OF h, of "''x''" "''x''" 0 77]
      queries_leave_tables_unchanged [OF h, of "''x''" "''float''" 0 77]
      queries_leave_tables_unchanged [OF h, of "''x''" "''f''" 0 77]
      v1 v2 v3 v4 v5 v6
    by auto
qed

end
